theory Spec2Isabelle
  imports Complex_Main
begin

section \<open>The AWS Bedrock manifold pipeline: provider format adapter\<close>

text \<open>
  A shallow embedding of \<^verbatim>\<open>examples/pipelines/providers/aws_bedrock_manifold_pipeline.py\<close>:
  the request formatter \<^verbatim>\<open>Pipeline._format_message\<close>, the whole-response decoder
  \<^verbatim>\<open>Pipeline._extract_output\<close> and the streaming decoder
  \<^verbatim>\<open>Pipeline._stream_response\<close>.
\<close>

subsection \<open>Python values\<close>

text \<open>
  The values the adapter handles are the ones \<^verbatim>\<open>json.loads\<close> produces: \<^verbatim>\<open>None\<close>, booleans,
  integers, floats, strings, lists and dictionaries. A dictionary keeps its insertion order
  (an association list, looked up with \<open>map_of\<close>). A finite float is carried as the rational it
  denotes; the adapter never computes with one. A Python \<^verbatim>\<open>str\<close> is a \<open>string\<close>; the adapter
  only compares, concatenates and searches strings.
\<close>

datatype json =
    JNull
  | JBool bool
  | JInt int
  | JFloat rat
  | JStr string
  | JArr "json list"
  | JObj "(string \<times> json) list"

type_synonym pydict = "(string \<times> json) list"
type_synonym bytes = string

datatype error =
    KeyError
  | IndexError
  | TypeError
  | AttributeError
  | JSONDecodeError
  | UnicodeDecodeError

text \<open>\<^verbatim>\<open>x[k]\<close> with a string key \<open>k\<close>.\<close>

fun getitem :: "json \<Rightarrow> string \<Rightarrow> error + json" where
  "getitem (JObj d) k = (case map_of d k of None \<Rightarrow> Inl KeyError | Some v \<Rightarrow> Inr v)"
| "getitem _ k = Inl TypeError"

text \<open>\<^verbatim>\<open>x[0]\<close>: the first element of a list, the first character of a string; a dictionary
  decoded from JSON has string keys only, so the key \<open>0\<close> is missing.\<close>

fun getitem0 :: "json \<Rightarrow> error + json" where
  "getitem0 (JArr xs) = (case xs of [] \<Rightarrow> Inl IndexError | x # _ \<Rightarrow> Inr x)"
| "getitem0 (JStr s) = (case s of [] \<Rightarrow> Inl IndexError | c # _ \<Rightarrow> Inr (JStr [c]))"
| "getitem0 (JObj d) = Inl KeyError"
| "getitem0 _ = Inl TypeError"

text \<open>\<^verbatim>\<open>x.get(k, default)\<close>: only a dictionary has the method.\<close>

fun dict_get :: "json \<Rightarrow> string \<Rightarrow> json \<Rightarrow> error + json" where
  "dict_get (JObj d) k dflt = Inr (case map_of d k of None \<Rightarrow> dflt | Some v \<Rightarrow> v)"
| "dict_get _ k dflt = Inl AttributeError"

text \<open>\<^verbatim>\<open>body.get(k, default)\<close> on the argument \<^verbatim>\<open>body: dict\<close>.\<close>

definition body_get :: "pydict \<Rightarrow> string \<Rightarrow> json \<Rightarrow> json" where
  "body_get body k dflt = (case map_of body k of None \<Rightarrow> dflt | Some v \<Rightarrow> v)"

text \<open>The truth value Python gives a value in a condition.\<close>

fun truthy :: "json \<Rightarrow> bool" where
  "truthy JNull = False"
| "truthy (JBool b) = b"
| "truthy (JInt n) = (n \<noteq> 0)"
| "truthy (JFloat r) = (r \<noteq> 0)"
| "truthy (JStr s) = (s \<noteq> [])"
| "truthy (JArr xs) = (xs \<noteq> [])"
| "truthy (JObj d) = (d \<noteq> [])"

text \<open>\<^verbatim>\<open>sub in s\<close> on strings: \<open>sub\<close> occurs in \<open>s\<close> as a contiguous substring.\<close>

fun starts_with :: "string \<Rightarrow> string \<Rightarrow> bool" where
  "starts_with [] s = True"
| "starts_with (c # cs) [] = False"
| "starts_with (c # cs) (d # ds) = (c = d \<and> starts_with cs ds)"

fun py_in :: "string \<Rightarrow> string \<Rightarrow> bool" where
  "py_in sub [] = (sub = [])"
| "py_in sub (c # cs) = (starts_with sub (c # cs) \<or> py_in sub cs)"

subsection \<open>Library functions the adapter calls\<close>

text \<open>
  The adapter calls \<^verbatim>\<open>json.dumps\<close>, \<^verbatim>\<open>json.loads\<close>, \<^verbatim>\<open>bytes.decode\<close>, \<^verbatim>\<open>requests.get\<close> and
  the formatting of a value inside an f-string. They are not code of this repository and are
  parameters of the model:
  \<^item> \<open>json_dumps\<close>: the serialisation of a value;
  \<^item> \<open>json_loads_str\<close>, \<open>json_loads_bytes\<close>: \<^verbatim>\<open>json.loads\<close> on a \<^verbatim>\<open>str\<close> and on \<^verbatim>\<open>bytes\<close>,
    raising on input that is not a JSON document;
  \<^item> \<open>utf8_decode\<close>: \<^verbatim>\<open>b.decode("utf-8")\<close>, raising on bytes that are not UTF-8;
  \<^item> \<open>requests_get\<close>: \<^verbatim>\<open>requests.get(url)\<close> followed by \<^verbatim>\<open>raise_for_status()\<close> and
    \<^verbatim>\<open>.content\<close>; \<open>None\<close> when a \<^verbatim>\<open>RequestException\<close> is raised;
  \<^item> \<open>py_str\<close>: what an f-string field prints for a value that is not a \<^verbatim>\<open>str\<close>.
\<close>

record libs =
  json_dumps :: "json \<Rightarrow> string"
  json_loads_str :: "string \<Rightarrow> error + json"
  json_loads_bytes :: "bytes \<Rightarrow> error + json"
  utf8_decode :: "bytes \<Rightarrow> error + string"
  requests_get :: "json \<Rightarrow> bytes option"
  py_str :: "json \<Rightarrow> string"

text \<open>An f-string field \<^verbatim>\<open>{v}\<close>: a \<^verbatim>\<open>str\<close> is inserted as it is.\<close>

definition fmt :: "libs \<Rightarrow> json \<Rightarrow> string" where
  "fmt L v = (case v of JStr s \<Rightarrow> s | _ \<Rightarrow> py_str L v)"

text \<open>\<^verbatim>\<open>base64.b64encode(data).decode('utf-8')\<close>: the standard alphabet with \<open>=\<close> padding; the
  output is ASCII, so decoding it never fails.\<close>

definition b64_alphabet :: string where
  "b64_alphabet = ''ABCDEFGHIJKLMNOPQRSTUVWXYZabcdefghijklmnopqrstuvwxyz0123456789+/''"

definition b64_char :: "nat \<Rightarrow> char" where
  "b64_char n = b64_alphabet ! n"

fun b64_groups :: "nat list \<Rightarrow> string" where
  "b64_groups (a # b # c # rest) =
     [b64_char (a div 4), b64_char ((a mod 4) * 16 + b div 16),
      b64_char ((b mod 16) * 4 + c div 64), b64_char (c mod 64)] @ b64_groups rest"
| "b64_groups [a, b] =
     [b64_char (a div 4), b64_char ((a mod 4) * 16 + b div 16),
      b64_char ((b mod 16) * 4), CHR ''='']"
| "b64_groups [a] = [b64_char (a div 4), b64_char ((a mod 4) * 16), CHR ''='', CHR ''='']"
| "b64_groups [] = []"

definition b64encode :: "bytes \<Rightarrow> string" where
  "b64encode data = b64_groups (map of_char data)"

subsection \<open>The request formatter\<close>

text \<open>The Amazon branch: \<^verbatim>\<open>prompt += f"{message['content']} "\<close> for each user message.\<close>

fun amazon_prompt :: "libs \<Rightarrow> json list \<Rightarrow> string \<Rightarrow> error + string" where
  "amazon_prompt L [] prompt = Inr prompt"
| "amazon_prompt L (message # messages) prompt =
     (case getitem message ''role'' of
        Inl e \<Rightarrow> Inl e
      | Inr r \<Rightarrow>
          if r = JStr ''user'' then
            (case getitem message ''content'' of
               Inl e \<Rightarrow> Inl e
             | Inr c \<Rightarrow> amazon_prompt L messages (prompt @ fmt L c @ '' ''))
          else amazon_prompt L messages prompt)"

definition format_amazon :: "libs \<Rightarrow> json list \<Rightarrow> json \<Rightarrow> json \<Rightarrow> error + json" where
  "format_amazon L messages max_tokens temperature =
     (case amazon_prompt L messages [] of
        Inl e \<Rightarrow> Inl e
      | Inr prompt \<Rightarrow>
          Inr (JObj [(''inputText'', JStr prompt),
                     (''textGenerationConfig'',
                        JObj [(''maxTokenCount'', max_tokens),
                              (''stopSequences'', JArr []),
                              (''temperature'', temperature)])]))"

text \<open>
  The Anthropic branch. The list \<^verbatim>\<open>content\<close> is created once, before the loop, and every user
  message appends to it and stores a reference to it in its dictionary. The store maps the
  address of a list object to its current elements; a message under construction holds either
  a reference to a list in the store or a value of its own. \<^verbatim>\<open>json.dumps\<close> reads the store as
  it is after the loop.
\<close>

type_synonym addr = nat
type_synonym store = "addr \<Rightarrow> json list"

datatype field = Ref addr | Val json

definition list_append :: "store \<Rightarrow> addr \<Rightarrow> json \<Rightarrow> store" where
  "list_append h a v = h(a := h a @ [v])"

definition image_block :: "string \<Rightarrow> json" where
  "image_block image_data =
     JObj [(''type'', JStr ''image''),
           (''source'', JObj [(''type'', JStr ''base64''),
                              (''media_type'', JStr ''image/jpeg''),
                              (''data'', JStr image_data)])]"

definition text_block :: "json \<Rightarrow> json" where
  "text_block c = JObj [(''type'', JStr ''text''), (''text'', c)]"

text \<open>\<^verbatim>\<open>messages and messages[-1]["role"] == "user" and body.get("image_url")\<close>, evaluated
  left to right; the subscript may raise.\<close>

definition image_wanted :: "json list \<Rightarrow> pydict \<Rightarrow> error + bool" where
  "image_wanted messages body =
     (if messages = [] then Inr False
      else (case getitem (last messages) ''role'' of
              Inl e \<Rightarrow> Inl e
            | Inr r \<Rightarrow>
                if r = JStr ''user'' then Inr (truthy (body_get body ''image_url'' JNull))
                else Inr False))"

text \<open>The \<^verbatim>\<open>try\<close> block: a failed download is printed and the list stays as it was.\<close>

definition fetch_image :: "libs \<Rightarrow> pydict \<Rightarrow> addr \<Rightarrow> store \<Rightarrow> store" where
  "fetch_image L body content h =
     (case requests_get L (body_get body ''image_url'' JNull) of
        None \<Rightarrow> h
      | Some data \<Rightarrow> list_append h content (image_block (b64encode data)))"

fun anthropic_loop ::
  "json list \<Rightarrow> addr \<Rightarrow> store \<Rightarrow> (string \<times> field) list \<Rightarrow> error + store \<times> (string \<times> field) list"
where
  "anthropic_loop [] content h anthropic_messages = Inr (h, anthropic_messages)"
| "anthropic_loop (message # messages) content h anthropic_messages =
     (case getitem message ''role'' of
        Inl e \<Rightarrow> Inl e
      | Inr r \<Rightarrow>
          if r = JStr ''user'' then
            (case getitem message ''content'' of
               Inl e \<Rightarrow> Inl e
             | Inr c \<Rightarrow>
                 anthropic_loop messages content (list_append h content (text_block c))
                   (anthropic_messages @ [(''user'', Ref content)]))
          else if r = JStr ''assistant'' then
            (case getitem message ''content'' of
               Inl e \<Rightarrow> Inl e
             | Inr c \<Rightarrow>
                 anthropic_loop messages content h
                   (anthropic_messages @ [(''assistant'', Val c)]))
          else anthropic_loop messages content h anthropic_messages)"

text \<open>What \<^verbatim>\<open>json.dumps\<close> sees of a message: a reference is followed into the store.\<close>

fun deref :: "store \<Rightarrow> string \<times> field \<Rightarrow> json" where
  "deref h (r, Ref a) = JObj [(''role'', JStr r), (''content'', JArr (h a))]"
| "deref h (r, Val v) = JObj [(''role'', JStr r), (''content'', v)]"

definition format_anthropic ::
  "libs \<Rightarrow> json list \<Rightarrow> pydict \<Rightarrow> json \<Rightarrow> json \<Rightarrow> error + json" where
  "format_anthropic L messages body max_tokens temperature =
     (let content = 0; h0 = (\<lambda>_. []) in
      case image_wanted messages body of
        Inl e \<Rightarrow> Inl e
      | Inr w \<Rightarrow>
          (case anthropic_loop messages content
                  (if w then fetch_image L body content h0 else h0) [] of
             Inl e \<Rightarrow> Inl e
           | Inr (h, anthropic_messages) \<Rightarrow>
               Inr (JObj [(''anthropic_version'', JStr ''bedrock-2023-05-31''),
                          (''max_tokens'', max_tokens),
                          (''messages'', JArr (map (deref h) anthropic_messages)),
                          (''temperature'', temperature)])))"

text \<open>The AI21, Cohere and Meta branches build the same prompt:
  \<^verbatim>\<open>prompt += f"{message['role']}: {message['content']}\n"\<close>.\<close>

fun role_prompt :: "libs \<Rightarrow> json list \<Rightarrow> string \<Rightarrow> error + string" where
  "role_prompt L [] prompt = Inr prompt"
| "role_prompt L (message # messages) prompt =
     (case getitem message ''role'' of
        Inl e \<Rightarrow> Inl e
      | Inr r \<Rightarrow>
          (case getitem message ''content'' of
             Inl e \<Rightarrow> Inl e
           | Inr c \<Rightarrow>
               role_prompt L messages (prompt @ fmt L r @ '': '' @ fmt L c @ [CHR 0x0A])))"

definition format_ai21 :: "libs \<Rightarrow> json list \<Rightarrow> json \<Rightarrow> json \<Rightarrow> error + json" where
  "format_ai21 L messages max_tokens temperature =
     (case role_prompt L messages [] of
        Inl e \<Rightarrow> Inl e
      | Inr prompt \<Rightarrow>
          Inr (JObj [(''prompt'', JStr prompt),
                     (''temperature'', temperature),
                     (''maxTokens'', max_tokens)]))"

definition format_cohere :: "libs \<Rightarrow> json list \<Rightarrow> json \<Rightarrow> json \<Rightarrow> error + json" where
  "format_cohere L messages max_tokens temperature =
     (case role_prompt L messages [] of
        Inl e \<Rightarrow> Inl e
      | Inr prompt \<Rightarrow>
          Inr (JObj [(''prompt'', JStr prompt),
                     (''temperature'', temperature),
                     (''max_tokens'', max_tokens)]))"

definition format_meta :: "libs \<Rightarrow> json list \<Rightarrow> json \<Rightarrow> json \<Rightarrow> error + json" where
  "format_meta L messages max_tokens temperature =
     (case role_prompt L messages [] of
        Inl e \<Rightarrow> Inl e
      | Inr prompt \<Rightarrow>
          Inr (JObj [(''prompt'', JStr prompt),
                     (''temperature'', temperature),
                     (''max_gen_len'', max_tokens)]))"

text \<open>The Mistral branch: user messages are wrapped, assistant messages appended as they
  are, any other role is skipped.\<close>

fun mistral_prompt :: "libs \<Rightarrow> json list \<Rightarrow> string \<Rightarrow> error + string" where
  "mistral_prompt L [] prompt = Inr prompt"
| "mistral_prompt L (message # messages) prompt =
     (case getitem message ''role'' of
        Inl e \<Rightarrow> Inl e
      | Inr r \<Rightarrow>
          if r = JStr ''user'' then
            (case getitem message ''content'' of
               Inl e \<Rightarrow> Inl e
             | Inr c \<Rightarrow>
                 mistral_prompt L messages (prompt @ ''[INST] '' @ fmt L c @ '' [/INST]''))
          else if r = JStr ''assistant'' then
            (case getitem message ''content'' of
               Inl e \<Rightarrow> Inl e
             | Inr c \<Rightarrow> mistral_prompt L messages (prompt @ fmt L c))
          else mistral_prompt L messages prompt)"

definition format_mistral :: "libs \<Rightarrow> json list \<Rightarrow> json \<Rightarrow> json \<Rightarrow> error + json" where
  "format_mistral L messages max_tokens temperature =
     (case mistral_prompt L messages [] of
        Inl e \<Rightarrow> Inl e
      | Inr prompt \<Rightarrow>
          Inr (JObj [(''prompt'', JStr prompt),
                     (''max_tokens'', max_tokens),
                     (''temperature'', temperature)]))"

text \<open>
  \<^verbatim>\<open>_format_message\<close>. Every branch but the last returns \<^verbatim>\<open>json.dumps\<close> of a dictionary;
  \<open>request_object\<close> is that dictionary (\<open>None\<close> in the last branch, which returns the empty
  string), and \<open>format_message\<close> the string returned.
\<close>

definition some_obj :: "error + json \<Rightarrow> error + json option" where
  "some_obj r = (case r of Inl e \<Rightarrow> Inl e | Inr j \<Rightarrow> Inr (Some j))"

definition request_object ::
  "libs \<Rightarrow> string \<Rightarrow> json list \<Rightarrow> pydict \<Rightarrow> error + json option" where
  "request_object L model messages body =
     (let max_tokens = body_get body ''max_tokens'' (JInt 2048);
          temperature = body_get body ''temperature'' (JFloat (1 / 2))
      in if py_in ''amazon'' model then
           some_obj (format_amazon L messages max_tokens temperature)
         else if py_in ''anthropic'' model then
           some_obj (format_anthropic L messages body max_tokens temperature)
         else if py_in ''ai21'' model then
           some_obj (format_ai21 L messages max_tokens temperature)
         else if py_in ''cohere'' model then
           some_obj (format_cohere L messages max_tokens temperature)
         else if py_in ''meta'' model then
           some_obj (format_meta L messages max_tokens temperature)
         else if py_in ''mistral'' model then
           some_obj (format_mistral L messages max_tokens temperature)
         else Inr None)"

definition dumps_payload :: "libs \<Rightarrow> json option \<Rightarrow> string" where
  "dumps_payload L p = (case p of None \<Rightarrow> [] | Some j \<Rightarrow> json_dumps L j)"

definition format_message :: "libs \<Rightarrow> string \<Rightarrow> json list \<Rightarrow> pydict \<Rightarrow> error + string" where
  "format_message L model messages body =
     (case request_object L model messages body of
        Inl e \<Rightarrow> Inl e
      | Inr p \<Rightarrow> Inr (dumps_payload L p))"

subsection \<open>The whole-response decoder\<close>

definition bind_err :: "error + 'a \<Rightarrow> ('a \<Rightarrow> error + 'b) \<Rightarrow> error + 'b" where
  "bind_err m f = (case m of Inl e \<Rightarrow> Inl e | Inr v \<Rightarrow> f v)"

definition extract_amazon :: "json \<Rightarrow> error + json" where
  "extract_amazon jsondata =
     bind_err (getitem jsondata ''results'') (\<lambda>r.
     bind_err (getitem0 r) (\<lambda>x. getitem x ''outputText''))"

definition extract_anthropic :: "json \<Rightarrow> error + json" where
  "extract_anthropic jsondata =
     bind_err (getitem jsondata ''content'') (\<lambda>r.
     bind_err (getitem0 r) (\<lambda>x. getitem x ''text''))"

definition extract_ai21 :: "json \<Rightarrow> error + json" where
  "extract_ai21 jsondata =
     bind_err (dict_get jsondata ''completions'' JNull) (\<lambda>r.
     bind_err (getitem0 r) (\<lambda>x.
     bind_err (dict_get x ''data'' JNull) (\<lambda>d. dict_get d ''text'' JNull)))"

definition extract_cohere :: "json \<Rightarrow> error + json" where
  "extract_cohere jsondata =
     bind_err (getitem jsondata ''generations'') (\<lambda>r.
     bind_err (getitem0 r) (\<lambda>x. getitem x ''text''))"

definition extract_meta :: "json \<Rightarrow> error + json" where
  "extract_meta jsondata = getitem jsondata ''generation''"

definition extract_mistral :: "json \<Rightarrow> error + json" where
  "extract_mistral jsondata =
     bind_err (getitem jsondata ''outputs'') (\<lambda>r.
     bind_err (getitem0 r) (\<lambda>x. getitem x ''text''))"

text \<open>\<^verbatim>\<open>_extract_output\<close>: the value found is returned as it is, whatever its type.\<close>

definition extract_output :: "json \<Rightarrow> string \<Rightarrow> error + json" where
  "extract_output jsondata model =
     (if py_in ''amazon'' model then extract_amazon jsondata
      else if py_in ''anthropic'' model then extract_anthropic jsondata
      else if py_in ''ai21'' model then extract_ai21 jsondata
      else if py_in ''cohere'' model then extract_cohere jsondata
      else if py_in ''meta'' model then extract_meta jsondata
      else if py_in ''mistral'' model then extract_mistral jsondata
      else Inr (JStr []))"

subsection \<open>The streaming decoder\<close>

text \<open>
  \<^verbatim>\<open>_stream_response\<close> is a generator. What its consumer observes is a finite sequence of
  yielded values that ends either when the events are exhausted or with an exception raised
  inside the generator, after which the generator yields nothing more. An event is the byte
  string \<^verbatim>\<open>event["chunk"]["bytes"]\<close>.
\<close>

datatype 'a gen = Yield 'a "'a gen" | StopIteration | Raise error

text \<open>\<^verbatim>\<open>for event in body: yield f(event)\<close>.\<close>

fun for_each :: "(bytes \<Rightarrow> error + json) \<Rightarrow> bytes list \<Rightarrow> json gen" where
  "for_each f [] = StopIteration"
| "for_each f (event # events) =
     (case f event of Inl e \<Rightarrow> Raise e | Inr v \<Rightarrow> Yield v (for_each f events))"

definition anthropic_delta :: "libs \<Rightarrow> bytes \<Rightarrow> error + json" where
  "anthropic_delta L b =
     bind_err (json_loads_bytes L b) (\<lambda>data. dict_get data ''completion'' (JStr []))"

text \<open>\<^verbatim>\<open>line = gen.get('outputs', [{}])[0].get('text', "")\<close> on the decoded event.\<close>

definition mistral_line :: "libs \<Rightarrow> bytes \<Rightarrow> error + json" where
  "mistral_line L bc =
     bind_err (utf8_decode L bc) (\<lambda>s.
     bind_err (json_loads_str L s) (\<lambda>gen.
     bind_err (dict_get gen ''outputs'' (JArr [JObj []])) (\<lambda>outputs.
     bind_err (getitem0 outputs) (\<lambda>x. dict_get x ''text'' (JStr [])))))"

definition mistral_delta :: "libs \<Rightarrow> bytes \<Rightarrow> error + json" where
  "mistral_delta L bc =
     bind_err (mistral_line L bc) (\<lambda>line.
       if JStr [CHR 0x0A] = line then Inr (JStr []) else Inr line)"

definition cohere_delta :: "libs \<Rightarrow> bytes \<Rightarrow> error + json" where
  "cohere_delta L b =
     bind_err (json_loads_bytes L b) (\<lambda>data. dict_get data ''text'' (JStr []))"

definition meta_delta :: "libs \<Rightarrow> bytes \<Rightarrow> error + json" where
  "meta_delta L b =
     bind_err (utf8_decode L b) (\<lambda>s.
     bind_err (json_loads_str L s) (\<lambda>data. dict_get data ''generation'' (JStr [])))"

definition default_delta :: "libs \<Rightarrow> bytes \<Rightarrow> error + json" where
  "default_delta L b = bind_err (utf8_decode L b) (\<lambda>chunk. Inr (JStr chunk))"

definition stream_response :: "libs \<Rightarrow> string \<Rightarrow> bytes list \<Rightarrow> json gen" where
  "stream_response L model_provider events =
     (if model_provider = ''anthropic'' then for_each (anthropic_delta L) events
      else if model_provider = ''mistral'' then for_each (mistral_delta L) events
      else if model_provider = ''cohere'' then for_each (cohere_delta L) events
      else if model_provider = ''meta'' then for_each (meta_delta L) events
      else for_each (default_delta L) events)"

text \<open>The provider token handed to the streaming decoder by the (disabled) streaming call in
  \<^verbatim>\<open>pipe\<close>: \<^verbatim>\<open>model_id.split(".")[0]\<close>, the part of the identifier before its first dot.\<close>

definition stream_provider :: "string \<Rightarrow> string" where
  "stream_provider model_id = takeWhile (\<lambda>c. c \<noteq> CHR ''.'') model_id"

text \<open>The values a generator yields before it stops, and a generator that yields the given
  values and then goes on as \<open>g\<close>.\<close>

fun emitted :: "'a gen \<Rightarrow> 'a list" where
  "emitted (Yield v g) = v # emitted g"
| "emitted StopIteration = []"
| "emitted (Raise e) = []"

fun yields :: "'a list \<Rightarrow> 'a gen \<Rightarrow> 'a gen" where
  "yields [] g = g"
| "yields (v # vs) g = Yield v (yields vs g)"

subsection \<open>The specification's view: families, classification and field paths\<close>

text \<open>
  The specification describes the adapter through a provider family computed once from the
  model identifier (the first marker, in a fixed order, that occurs in it), a formatter and a
  decoder per family, and a field path per family. These definitions follow its words; the
  theorems compare them with the code above.
\<close>

datatype family = Amazon | Anthropic | AI21 | Cohere | Meta | Mistral | Unknown

definition markers :: "(string \<times> family) list" where
  "markers =
     [(''amazon'', Amazon), (''anthropic'', Anthropic), (''ai21'', AI21),
      (''cohere'', Cohere), (''meta'', Meta), (''mistral'', Mistral)]"

definition classify :: "string \<Rightarrow> family" where
  "classify model =
     (case find (\<lambda>(m, f). py_in m model) markers of None \<Rightarrow> Unknown | Some (m, f) \<Rightarrow> f)"

fun format_family :: "libs \<Rightarrow> family \<Rightarrow> json list \<Rightarrow> pydict \<Rightarrow> error + json option" where
  "format_family L Amazon messages body =
     some_obj (format_amazon L messages (body_get body ''max_tokens'' (JInt 2048))
                 (body_get body ''temperature'' (JFloat (1 / 2))))"
| "format_family L Anthropic messages body =
     some_obj (format_anthropic L messages body (body_get body ''max_tokens'' (JInt 2048))
                 (body_get body ''temperature'' (JFloat (1 / 2))))"
| "format_family L AI21 messages body =
     some_obj (format_ai21 L messages (body_get body ''max_tokens'' (JInt 2048))
                 (body_get body ''temperature'' (JFloat (1 / 2))))"
| "format_family L Cohere messages body =
     some_obj (format_cohere L messages (body_get body ''max_tokens'' (JInt 2048))
                 (body_get body ''temperature'' (JFloat (1 / 2))))"
| "format_family L Meta messages body =
     some_obj (format_meta L messages (body_get body ''max_tokens'' (JInt 2048))
                 (body_get body ''temperature'' (JFloat (1 / 2))))"
| "format_family L Mistral messages body =
     some_obj (format_mistral L messages (body_get body ''max_tokens'' (JInt 2048))
                 (body_get body ''temperature'' (JFloat (1 / 2))))"
| "format_family L Unknown messages body = Inr None"

fun extract_family :: "family \<Rightarrow> json \<Rightarrow> error + json" where
  "extract_family Amazon j = extract_amazon j"
| "extract_family Anthropic j = extract_anthropic j"
| "extract_family AI21 j = extract_ai21 j"
| "extract_family Cohere j = extract_cohere j"
| "extract_family Meta j = extract_meta j"
| "extract_family Mistral j = extract_mistral j"
| "extract_family Unknown j = Inr (JStr [])"

text \<open>A field path into a JSON document, and the value a document holds at a path.\<close>

datatype step = Key string | Index0

fun resolve :: "json \<Rightarrow> step list \<Rightarrow> json option" where
  "resolve j [] = Some j"
| "resolve (JObj d) (Key k # p) = (case map_of d k of None \<Rightarrow> None | Some v \<Rightarrow> resolve v p)"
| "resolve (JArr (x # xs)) (Index0 # p) = resolve x p"
| "resolve _ (_ # p) = None"

fun family_path :: "family \<Rightarrow> step list" where
  "family_path Amazon = [Key ''results'', Index0, Key ''outputText'']"
| "family_path Anthropic = [Key ''content'', Index0, Key ''text'']"
| "family_path AI21 = [Key ''completions'', Index0, Key ''data'', Key ''text'']"
| "family_path Cohere = [Key ''generations'', Index0, Key ''text'']"
| "family_path Meta = [Key ''generation'']"
| "family_path Mistral = [Key ''outputs'', Index0, Key ''text'']"
| "family_path Unknown = []"

text \<open>The JSON document of an event as the branch for a provider token reads it: the Mistral
  and Meta branches decode the bytes as UTF-8 and parse the text, the Anthropic and Cohere
  branches hand the bytes to the parser.\<close>

definition event_json :: "libs \<Rightarrow> string \<Rightarrow> bytes \<Rightarrow> error + json" where
  "event_json L p b =
     (if p = ''mistral'' \<or> p = ''meta'' then bind_err (utf8_decode L b) (json_loads_str L)
      else json_loads_bytes L b)"

definition stream_tokens :: "string list" where
  "stream_tokens = [''anthropic'', ''mistral'', ''cohere'', ''meta'']"

text \<open>A chat turn \<^verbatim>\<open>{"role": r, "content": c}\<close> with string fields.\<close>

definition turn :: "string \<Rightarrow> string \<Rightarrow> json" where
  "turn r c = JObj [(''role'', JStr r), (''content'', JStr c)]"

subsection \<open>A library instance for the examples\<close>

text \<open>
  The examples below are evaluated with this instance of the library functions: a parser that
  knows the four documents the examples use and raises on everything else, a decoder for
  ASCII bytes, and a download that succeeds for one URL. On the inputs of the examples these
  return what the Python library returns there. The serialiser and the printer of values
  other than strings are placeholders: no example looks at what they return.
\<close>

definition ex_loads :: "string \<Rightarrow> error + json" where
  \<open>ex_loads s =
     (if s = ''{"completion": "a"}'' then Inr (JObj [(''completion'', JStr ''a'')])
      else if s = ''{"completion": "b"}'' then Inr (JObj [(''completion'', JStr ''b'')])
      else if s = ''{"outputs": [{"text": "'' @ [CHR 0x5C] @ ''n"}]}'' then
        Inr (JObj [(''outputs'', JArr [JObj [(''text'', JStr [CHR 0x0A])]])])
      else if s = ''{"outputs": [{"text": "hi"}]}'' then
        Inr (JObj [(''outputs'', JArr [JObj [(''text'', JStr ''hi'')]])])
      else Inl JSONDecodeError)\<close>

definition ex_decode :: "bytes \<Rightarrow> error + string" where
  "ex_decode b =
     (if list_all (\<lambda>c. (of_char c :: nat) < 128) b then Inr b else Inl UnicodeDecodeError)"

definition ex_get :: "json \<Rightarrow> bytes option" where
  "ex_get url = (if url = JStr ''http://example.com/cat.jpg'' then Some ''Man'' else None)"

definition ex_str :: "json \<Rightarrow> string" where
  "ex_str v = []"

definition ex_dumps :: "json \<Rightarrow> string" where
  "ex_dumps j = []"

definition ex_libs :: libs where
  "ex_libs =
     \<lparr>json_dumps = ex_dumps, json_loads_str = ex_loads, json_loads_bytes = ex_loads,
      utf8_decode = ex_decode, requests_get = ex_get, py_str = ex_str\<rparr>"

section \<open>Properties\<close>

subsection \<open>Substring search and classification\<close>

lemma starts_with_iff: "starts_with p s \<longleftrightarrow> (\<exists>suf. s = p @ suf)"
  by (induction p s rule: starts_with.induct) auto

lemma py_in_iff: "py_in sub s \<longleftrightarrow> (\<exists>pre suf. s = pre @ sub @ suf)"
proof (induction s)
  case Nil
  then show ?case by auto
next
  case (Cons c cs)
  show ?case
  proof
    assume "py_in sub (c # cs)"
    then consider "starts_with sub (c # cs)" | "py_in sub cs" by auto
    then show "\<exists>pre suf. c # cs = pre @ sub @ suf"
    proof cases
      case 1
      then obtain suf where "c # cs = sub @ suf" by (auto simp: starts_with_iff)
      then have "c # cs = [] @ sub @ suf" by simp
      then show ?thesis by blast
    next
      case 2
      then obtain pre suf where "cs = pre @ sub @ suf" using Cons.IH by blast
      then have "c # cs = (c # pre) @ sub @ suf" by simp
      then show ?thesis by blast
    qed
  next
    assume "\<exists>pre suf. c # cs = pre @ sub @ suf"
    then obtain pre suf where eq: "c # cs = pre @ sub @ suf" by blast
    show "py_in sub (c # cs)"
    proof (cases pre)
      case Nil
      with eq have "starts_with sub (c # cs)" by (auto simp: starts_with_iff)
      then show ?thesis by simp
    next
      case (Cons a pre')
      with eq have "cs = pre' @ sub @ suf" by simp
      then have "py_in sub cs" using Cons.IH by blast
      then show ?thesis by simp
    qed
  qed
qed

lemma request_object_classify:
  "request_object L model messages body = format_family L (classify model) messages body"
  by (simp add: request_object_def classify_def markers_def Let_def)

lemma extract_output_classify:
  "extract_output jsondata model = extract_family (classify model) jsondata"
  by (simp add: extract_output_def classify_def markers_def)

lemma py_in_stream_provider: "py_in (stream_provider model) model"
proof -
  have "model = [] @ takeWhile (\<lambda>c. c \<noteq> CHR ''.'') model @ dropWhile (\<lambda>c. c \<noteq> CHR ''.'') model"
    by simp
  then show ?thesis unfolding py_in_iff stream_provider_def by blast
qed

lemma for_each_append:
  "for_each f pre = yields ds StopIteration \<Longrightarrow>
   for_each f (pre @ rest) = yields ds (for_each f rest)"
proof (induction pre arbitrary: ds)
  case Nil
  then show ?case by (cases ds) auto
next
  case (Cons b pre)
  show ?case
  proof (cases "f b")
    case (Inl e)
    with Cons.prems show ?thesis by (cases ds) auto
  next
    case (Inr v)
    with Cons.prems obtain ds' where ds: "ds = v # ds'" and "for_each f pre = yields ds' StopIteration"
      by (cases ds) auto
    then show ?thesis using Cons.IH Inr by simp
  qed
qed

lemma for_each_default:
  "map (utf8_decode L) events = map Inr texts \<Longrightarrow>
   for_each (default_delta L) events = yields (map JStr texts) StopIteration"
proof (induction events arbitrary: texts)
  case Nil
  then show ?case by simp
next
  case (Cons b events)
  then obtain t ts where "texts = t # ts" "utf8_decode L b = Inr t"
    "map (utf8_decode L) events = map Inr ts" by (cases texts) auto
  then show ?case using Cons.IH by (simp add: default_delta_def bind_err_def)
qed

subsection \<open>The Amazon prompt\<close>

lemma amazon_prompt_turns:
  "amazon_prompt L (map (\<lambda>(r, c). turn r c) turns) prompt =
     Inr (prompt @ concat (map (\<lambda>(r, c). c @ '' '') (filter (\<lambda>(r, c). r = ''user'') turns)))"
  by (induction turns arbitrary: prompt) (auto simp: turn_def fmt_def)

text \<open>
  Claim C7. For a model identifier of the Amazon family, the formatter keeps the user turns
  only and the prompt is the concatenation of each user turn's content followed by one space;
  for the turns user "hi", assistant "hello", user "there" the prompt is exactly "hi there ".
\<close>

theorem amazon_prompt_user_turns:
  assumes "py_in ''amazon'' model"
  shows "request_object L model (map (\<lambda>(r, c). turn r c) turns) body =
           Inr (Some (JObj
             [(''inputText'',
                JStr (concat (map (\<lambda>(r, c). c @ '' '') (filter (\<lambda>(r, c). r = ''user'') turns)))),
              (''textGenerationConfig'',
                JObj [(''maxTokenCount'', body_get body ''max_tokens'' (JInt 2048)),
                      (''stopSequences'', JArr []),
                      (''temperature'', body_get body ''temperature'' (JFloat (1 / 2)))])])) \<and>
         format_message L model
           [turn ''user'' ''hi'', turn ''assistant'' ''hello'', turn ''user'' ''there''] body =
           Inr (json_dumps L (JObj
             [(''inputText'', JStr ''hi there ''),
              (''textGenerationConfig'',
                JObj [(''maxTokenCount'', body_get body ''max_tokens'' (JInt 2048)),
                      (''stopSequences'', JArr []),
                      (''temperature'', body_get body ''temperature'' (JFloat (1 / 2)))])]))"
proof
  show "request_object L model (map (\<lambda>(r, c). turn r c) turns) body =
           Inr (Some (JObj
             [(''inputText'',
                JStr (concat (map (\<lambda>(r, c). c @ '' '') (filter (\<lambda>(r, c). r = ''user'') turns)))),
              (''textGenerationConfig'',
                JObj [(''maxTokenCount'', body_get body ''max_tokens'' (JInt 2048)),
                      (''stopSequences'', JArr []),
                      (''temperature'', body_get body ''temperature'' (JFloat (1 / 2)))])]))"
    using assms
    by (simp add: request_object_def Let_def format_amazon_def some_obj_def amazon_prompt_turns)
  show "format_message L model
           [turn ''user'' ''hi'', turn ''assistant'' ''hello'', turn ''user'' ''there''] body =
           Inr (json_dumps L (JObj
             [(''inputText'', JStr ''hi there ''),
              (''textGenerationConfig'',
                JObj [(''maxTokenCount'', body_get body ''max_tokens'' (JInt 2048)),
                      (''stopSequences'', JArr []),
                      (''temperature'', body_get body ''temperature'' (JFloat (1 / 2)))])]))"
    using assms
    by (simp add: format_message_def dumps_payload_def request_object_def Let_def
        format_amazon_def some_obj_def turn_def fmt_def)
qed

theorem amazon_prompt_user_turns_witness:
  "py_in ''amazon'' ''amazon.titan-text-express-v1'' \<and>
   request_object ex_libs ''amazon.titan-text-express-v1''
     (map (\<lambda>(r, c). turn r c) [(''user'', ''hi''), (''assistant'', ''hello''), (''user'', ''there'')]) [] =
     Inr (Some (JObj
       [(''inputText'', JStr ''hi there ''),
        (''textGenerationConfig'',
          JObj [(''maxTokenCount'', JInt 2048), (''stopSequences'', JArr []),
                (''temperature'', JFloat (1 / 2))])]))"
proof -
  have h: "py_in ''amazon'' ''amazon.titan-text-express-v1''" by simp
  show ?thesis
    using h amazon_prompt_user_turns [OF h, of ex_libs
        "[(''user'', ''hi''), (''assistant'', ''hello''), (''user'', ''there'')]" "[]"]
    by (simp add: body_get_def)
qed

subsection \<open>Classification by the first marker\<close>

lemma find_append_None:
  "find P xs = None \<Longrightarrow> find P (xs @ ys) = find P ys"
  by (induction xs) (auto split: if_splits)

lemma classify_first:
  assumes "markers = before @ (m, f) # rest" and "py_in m model"
    and "\<forall>(m', f') \<in> set before. \<not> py_in m' model"
  shows "classify model = f"
proof -
  have "find (\<lambda>(m, f). py_in m model) before = None"
    using assms(3) by (auto simp: find_None_iff)
  then have "find (\<lambda>(m, f). py_in m model) (before @ (m, f) # rest) =
      find (\<lambda>(m, f). py_in m model) ((m, f) # rest)"
    by (rule find_append_None)
  also have "\<dots> = Some (m, f)" using assms(2) by simp
  finally have "find (\<lambda>(m, f). py_in m model) markers = Some (m, f)"
    using assms(1) by simp
  then show ?thesis by (simp add: classify_def)
qed

lemma classify_only:
  assumes "(m, f) \<in> set markers" and "py_in m model"
    and "\<forall>(m', f') \<in> set markers. m' \<noteq> m \<longrightarrow> \<not> py_in m' model"
  shows "classify model = f"
  using assms unfolding markers_def classify_def by auto

lemma classify_none:
  assumes "\<forall>(m, f) \<in> set markers. \<not> py_in m model"
  shows "classify model = Unknown"
  using assms unfolding markers_def classify_def by auto

lemma format_message_classify:
  "format_message L model messages body =
     (case format_family L (classify model) messages body of
        Inl e \<Rightarrow> Inl e | Inr p \<Rightarrow> Inr (dumps_payload L p))"
  by (simp add: format_message_def request_object_classify)

text \<open>
  Claim C9. When a model identifier contains more than one family marker, the chain order
  amazon, anthropic, ai21, cohere, meta, mistral decides: the family of the first marker of
  that order that occurs in the identifier is the one the formatter and the whole-response
  decoder use. An identifier with both "meta" and "mistral" (and no earlier marker) is
  formatted and decoded as Meta.
\<close>

theorem first_marker_in_chain_order:
  assumes "markers = before @ (m, f) # rest" and "py_in m model"
    and "\<forall>(m', f') \<in> set before. \<not> py_in m' model"
  shows "request_object L model messages body = format_family L f messages body \<and>
         format_message L model messages body =
           (case format_family L f messages body of
              Inl e \<Rightarrow> Inl e | Inr p \<Rightarrow> Inr (dumps_payload L p)) \<and>
         extract_output jsondata model = extract_family f jsondata"
  using classify_first [OF assms]
  by (simp add: request_object_classify format_message_classify extract_output_classify)

theorem first_marker_in_chain_order_witness:
  "markers = [(''amazon'', Amazon), (''anthropic'', Anthropic), (''ai21'', AI21),
              (''cohere'', Cohere)] @ (''meta'', Meta) # [(''mistral'', Mistral)] \<and>
   py_in ''meta'' ''mistral-meta-mix'' \<and> py_in ''mistral'' ''mistral-meta-mix'' \<and>
   request_object ex_libs ''mistral-meta-mix'' [turn ''user'' ''hi''] [] =
     Inr (Some (JObj [(''prompt'', JStr (''user: hi'' @ [CHR 0x0A])),
                      (''temperature'', JFloat (1 / 2)), (''max_gen_len'', JInt 2048)])) \<and>
   extract_output (JObj [(''generation'', JStr ''ok'')]) ''mistral-meta-mix'' = Inr (JStr ''ok'')"
proof -
  have a: "markers = [(''amazon'', Amazon), (''anthropic'', Anthropic), (''ai21'', AI21),
              (''cohere'', Cohere)] @ (''meta'', Meta) # [(''mistral'', Mistral)]"
    by (simp add: markers_def)
  have b: "py_in ''meta'' ''mistral-meta-mix''" by simp
  have c: "\<forall>(m', f') \<in> set [(''amazon'', Amazon), (''anthropic'', Anthropic), (''ai21'', AI21),
              (''cohere'', Cohere)]. \<not> py_in m' ''mistral-meta-mix''" by simp
  have d: "py_in ''mistral'' ''mistral-meta-mix''" by simp
  show ?thesis
    using a b d first_marker_in_chain_order [OF a b c, of ex_libs "[turn ''user'' ''hi'']" "[]"
        "JObj [(''generation'', JStr ''ok'')]"]
    by (simp add: format_meta_def some_obj_def turn_def fmt_def body_get_def extract_meta_def)
qed

text \<open>
  Claim C3. For a model identifier in which exactly one of the six markers occurs, wherever
  it occurs, the formatter and the whole-response decoder apply that marker's family; for an
  identifier in which none occurs, formatting returns the empty payload and extraction the
  empty string, and neither raises.
\<close>

theorem single_marker_selects_family:
  "((m, f) \<in> set markers \<and> model = pre @ m @ suf \<and>
      (\<forall>(m', f') \<in> set markers. m' \<noteq> m \<longrightarrow> \<not> py_in m' model) \<longrightarrow>
      request_object L model messages body = format_family L f messages body \<and>
      format_message L model messages body =
        (case format_family L f messages body of
           Inl e \<Rightarrow> Inl e | Inr p \<Rightarrow> Inr (dumps_payload L p)) \<and>
      extract_output jsondata model = extract_family f jsondata) \<and>
   ((\<forall>(m', f') \<in> set markers. \<not> py_in m' model) \<longrightarrow>
      request_object L model messages body = Inr None \<and>
      format_message L model messages body = Inr [] \<and>
      extract_output jsondata model = Inr (JStr []))"
proof (intro conjI impI)
  assume h: "(m, f) \<in> set markers \<and> model = pre @ m @ suf \<and>
      (\<forall>(m', f') \<in> set markers. m' \<noteq> m \<longrightarrow> \<not> py_in m' model)"
  then have "py_in m model" unfolding py_in_iff by blast
  with h have c: "classify model = f" using classify_only by blast
  show "request_object L model messages body = format_family L f messages body"
    using c by (simp add: request_object_classify)
  show "format_message L model messages body =
        (case format_family L f messages body of
           Inl e \<Rightarrow> Inl e | Inr p \<Rightarrow> Inr (dumps_payload L p))"
    using c by (simp add: format_message_classify)
  show "extract_output jsondata model = extract_family f jsondata"
    using c by (simp add: extract_output_classify)
next
  assume "\<forall>(m', f') \<in> set markers. \<not> py_in m' model"
  then have c: "classify model = Unknown" by (rule classify_none)
  show "request_object L model messages body = Inr None"
    using c by (simp add: request_object_classify)
  show "format_message L model messages body = Inr []"
    using c by (simp add: format_message_classify dumps_payload_def)
  show "extract_output jsondata model = Inr (JStr [])"
    using c by (simp add: extract_output_classify)
qed

theorem single_marker_selects_family_witness:
  "(''meta'', Meta) \<in> set markers \<and> ''us.meta.llama3'' = ''us.'' @ ''meta'' @ ''.llama3'' \<and>
   request_object ex_libs ''us.meta.llama3'' [turn ''user'' ''hi''] [] =
     Inr (Some (JObj [(''prompt'', JStr (''user: hi'' @ [CHR 0x0A])),
                      (''temperature'', JFloat (1 / 2)), (''max_gen_len'', JInt 2048)])) \<and>
   extract_output (JObj [(''generation'', JStr ''ok'')]) ''us.meta.llama3'' = Inr (JStr ''ok'') \<and>
   request_object ex_libs ''openai.gpt-4'' [turn ''user'' ''hi''] [] = Inr None \<and>
   format_message ex_libs ''openai.gpt-4'' [turn ''user'' ''hi''] [] = Inr [] \<and>
   extract_output (JObj [(''generation'', JStr ''ok'')]) ''openai.gpt-4'' = Inr (JStr [])"
proof -
  have h1: "(''meta'', Meta) \<in> set markers \<and> ''us.meta.llama3'' = ''us.'' @ ''meta'' @ ''.llama3'' \<and>
      (\<forall>(m', f') \<in> set markers. m' \<noteq> ''meta'' \<longrightarrow> \<not> py_in m' ''us.meta.llama3'')"
    by (simp add: markers_def)
  have h2: "\<forall>(m', f') \<in> set markers. \<not> py_in m' ''openai.gpt-4''"
    by (simp add: markers_def)
  note t1 = single_marker_selects_family [of "''meta''" Meta "''us.meta.llama3''" "''us.''"
      "''.llama3''" ex_libs "[turn ''user'' ''hi'']" "[]" "JObj [(''generation'', JStr ''ok'')]",
      THEN conjunct1, THEN mp, OF h1]
  note t2 = single_marker_selects_family [of _ _ "''openai.gpt-4''" _ _ ex_libs
      "[turn ''user'' ''hi'']" "[]" "JObj [(''generation'', JStr ''ok'')]",
      THEN conjunct2, THEN mp, OF h2]
  show ?thesis
    using h1 t1 t2
    by (simp add: format_meta_def some_obj_def turn_def fmt_def body_get_def extract_meta_def)
qed

subsection \<open>The empty turn list\<close>

text \<open>
  Claim C8. For every family, formatting the empty turn list does not raise. The payload of
  each of the six known families has an empty prompt (Anthropic: an empty message list), and
  the payload of an identifier of no known family is the empty string.
\<close>

theorem empty_turn_list_is_formatted:
  "\<exists>p. request_object L model [] body = Inr p \<and>
       format_message L model [] body = Inr (dumps_payload L p) \<and>
       p = (case classify model of
              Amazon \<Rightarrow>
                Some (JObj [(''inputText'', JStr []),
                            (''textGenerationConfig'',
                               JObj [(''maxTokenCount'', body_get body ''max_tokens'' (JInt 2048)),
                                     (''stopSequences'', JArr []),
                                     (''temperature'',
                                        body_get body ''temperature'' (JFloat (1 / 2)))])])
            | Anthropic \<Rightarrow>
                Some (JObj [(''anthropic_version'', JStr ''bedrock-2023-05-31''),
                            (''max_tokens'', body_get body ''max_tokens'' (JInt 2048)),
                            (''messages'', JArr []),
                            (''temperature'', body_get body ''temperature'' (JFloat (1 / 2)))])
            | AI21 \<Rightarrow>
                Some (JObj [(''prompt'', JStr []),
                            (''temperature'', body_get body ''temperature'' (JFloat (1 / 2))),
                            (''maxTokens'', body_get body ''max_tokens'' (JInt 2048))])
            | Cohere \<Rightarrow>
                Some (JObj [(''prompt'', JStr []),
                            (''temperature'', body_get body ''temperature'' (JFloat (1 / 2))),
                            (''max_tokens'', body_get body ''max_tokens'' (JInt 2048))])
            | Meta \<Rightarrow>
                Some (JObj [(''prompt'', JStr []),
                            (''temperature'', body_get body ''temperature'' (JFloat (1 / 2))),
                            (''max_gen_len'', body_get body ''max_tokens'' (JInt 2048))])
            | Mistral \<Rightarrow>
                Some (JObj [(''prompt'', JStr []),
                            (''max_tokens'', body_get body ''max_tokens'' (JInt 2048)),
                            (''temperature'', body_get body ''temperature'' (JFloat (1 / 2)))])
            | Unknown \<Rightarrow> None)"
  by (cases "classify model")
    (simp_all add: format_message_classify request_object_classify some_obj_def
      format_amazon_def format_anthropic_def format_ai21_def format_cohere_def format_meta_def
      format_mistral_def image_wanted_def)

theorem empty_turn_list_is_formatted_witness:
  "request_object ex_libs ''anthropic.claude-v2'' []
     [(''image_url'', JStr ''http://example.com/cat.jpg'')] =
     Inr (Some (JObj [(''anthropic_version'', JStr ''bedrock-2023-05-31''),
                      (''max_tokens'', JInt 2048), (''messages'', JArr []),
                      (''temperature'', JFloat (1 / 2))]))"
proof -
  have c: "classify ''anthropic.claude-v2'' = Anthropic"
    by (simp add: classify_def markers_def)
  show ?thesis
    using empty_turn_list_is_formatted [of ex_libs "''anthropic.claude-v2''"
        "[(''image_url'', JStr ''http://example.com/cat.jpg'')]"] c
    by (auto simp: body_get_def)
qed

subsection \<open>Streaming\<close>

lemma stream_response_append:
  "stream_response L p pre = yields ds StopIteration \<Longrightarrow>
   stream_response L p (pre @ rest) = yields ds (stream_response L p rest)"
  by (simp add: stream_response_def for_each_append split: if_splits)

lemma emitted_yields: "emitted (yields ds g) = ds @ emitted g"
  by (induction ds) auto

lemma stream_response_default:
  "p \<notin> set stream_tokens \<Longrightarrow> stream_response L p events = for_each (default_delta L) events"
  by (simp add: stream_response_def stream_tokens_def)

lemma no_marker_no_token:
  assumes "\<forall>(m, f) \<in> set markers. \<not> py_in m model"
  shows "stream_provider model \<notin> set stream_tokens"
proof
  assume "stream_provider model \<in> set stream_tokens"
  then have "\<exists>(m, f) \<in> set markers. stream_provider model = m"
    by (auto simp: stream_tokens_def markers_def)
  then obtain m f where "(m, f) \<in> set markers" "stream_provider model = m" by auto
  then show False using assms py_in_stream_provider [of model] by auto
qed

text \<open>
  Claim C4. In the Mistral branch of the streaming decoder, an event whose decoded
  \<^verbatim>\<open>outputs[0].text\<close> is exactly the one-character string of a newline yields the empty
  string, and an event whose text is any other value yields that value unchanged; the
  stream then goes on with the next event.
\<close>

theorem mistral_newline_delta:
  assumes "stream_response L ''mistral'' pre = yields ds StopIteration"
    and "utf8_decode L b = Inr s" and "json_loads_str L s = Inr (JObj d)"
    and "map_of d ''outputs'' = Some (JArr (JObj out # outs))"
    and "map_of out ''text'' = Some line"
  shows "stream_response L ''mistral'' (pre @ b # post) =
           yields ds (Yield (if line = JStr [CHR 0x0A] then JStr [] else line)
                        (stream_response L ''mistral'' post))"
proof -
  have "mistral_line L b = Inr line"
    using assms(2-5) by (simp add: mistral_line_def bind_err_def)
  then have "stream_response L ''mistral'' (b # post) =
      Yield (if line = JStr [CHR 0x0A] then JStr [] else line) (stream_response L ''mistral'' post)"
    by (auto simp: stream_response_def mistral_delta_def bind_err_def)
  then show ?thesis using stream_response_append [OF assms(1)] by simp
qed

theorem mistral_newline_delta_witness:
  \<open>stream_response ex_libs ''mistral''
     ([''{"outputs": [{"text": "hi"}]}''] @ (''{"outputs": [{"text": "'' @ [CHR 0x5C] @ ''n"}]}'') #
      [''{"outputs": [{"text": "hi"}]}'']) =
     Yield (JStr ''hi'') (Yield (JStr []) (Yield (JStr ''hi'') StopIteration))\<close>
proof -
  have a: \<open>stream_response ex_libs ''mistral'' [''{"outputs": [{"text": "hi"}]}''] =
      yields [JStr ''hi''] StopIteration\<close>
    by (simp add: stream_response_def mistral_delta_def mistral_line_def bind_err_def
        ex_libs_def ex_decode_def ex_loads_def)
  have b: \<open>utf8_decode ex_libs (''{"outputs": [{"text": "'' @ [CHR 0x5C] @ ''n"}]}'') =
      Inr (''{"outputs": [{"text": "'' @ [CHR 0x5C] @ ''n"}]}'')\<close>
    by (simp add: ex_libs_def ex_decode_def)
  have c: \<open>json_loads_str ex_libs (''{"outputs": [{"text": "'' @ [CHR 0x5C] @ ''n"}]}'') =
      Inr (JObj [(''outputs'', JArr (JObj [(''text'', JStr [CHR 0x0A])] # []))])\<close>
    by (simp add: ex_libs_def ex_loads_def)
  have d: "map_of [(''outputs'', JArr (JObj [(''text'', JStr [CHR 0x0A])] # []))] ''outputs'' =
      Some (JArr (JObj [(''text'', JStr [CHR 0x0A])] # []))" by simp
  have e: "map_of [(''text'', JStr [CHR 0x0A])] ''text'' = Some (JStr [CHR 0x0A])" by simp
  show ?thesis
    using mistral_newline_delta [OF a b c d e, of \<open>[''{"outputs": [{"text": "hi"}]}'']\<close>] a
    by simp
qed

lemma bind_err_Inl: "m = Inl e \<Longrightarrow> bind_err m f = Inl e"
  by (simp add: bind_err_def)

lemma anthropic_delta_malformed:
  "event_json L ''anthropic'' bad = Inl e \<Longrightarrow> anthropic_delta L bad = Inl e"
  by (simp add: event_json_def anthropic_delta_def bind_err_def)

lemma cohere_delta_malformed:
  "event_json L ''cohere'' bad = Inl e \<Longrightarrow> cohere_delta L bad = Inl e"
  by (simp add: event_json_def cohere_delta_def bind_err_def)

lemma meta_delta_malformed:
  "event_json L ''meta'' bad = Inl e \<Longrightarrow> meta_delta L bad = Inl e"
  by (cases "utf8_decode L bad") (simp_all add: event_json_def meta_delta_def bind_err_def)

lemma mistral_delta_malformed:
  "event_json L ''mistral'' bad = Inl e \<Longrightarrow> mistral_delta L bad = Inl e"
  by (cases "utf8_decode L bad")
    (simp_all add: event_json_def mistral_delta_def mistral_line_def bind_err_def)

lemma stream_response_malformed:
  assumes "p \<in> set stream_tokens" and "event_json L p bad = Inl e"
  shows "stream_response L p (bad # post) = Raise e"
proof -
  consider "p = ''anthropic''" | "p = ''mistral''" | "p = ''cohere''" | "p = ''meta''"
    using assms(1) by (auto simp: stream_tokens_def)
  then show ?thesis
  proof cases
    case 1
    then show ?thesis
      using anthropic_delta_malformed [of L bad e] assms(2) by (simp add: stream_response_def)
  next
    case 2
    then show ?thesis
      using mistral_delta_malformed [of L bad e] assms(2) by (simp add: stream_response_def)
  next
    case 3
    then show ?thesis
      using cohere_delta_malformed [of L bad e] assms(2) by (simp add: stream_response_def)
  next
    case 4
    then show ?thesis
      using meta_delta_malformed [of L bad e] assms(2) by (simp add: stream_response_def)
  qed
qed

text \<open>
  Claim C2 says that a malformed event does not end the stream and that the deltas of the
  events after it are still emitted. The generator has no handler around the parse: with the
  events "a", a malformed one and "b", it yields "a" and then raises, and "b" is never
  yielded.
\<close>

theorem malformed_event_ends_stream_counterexample:
  \<open>stream_response ex_libs ''anthropic''
     [''{"completion": "a"}'', ''oops'', ''{"completion": "b"}''] =
     Yield (JStr ''a'') (Raise JSONDecodeError) \<and>
   stream_response ex_libs ''anthropic'' [''{"completion": "b"}''] =
     Yield (JStr ''b'') StopIteration\<close>
  by (simp add: stream_response_def anthropic_delta_def bind_err_def ex_libs_def ex_loads_def)

text \<open>
  Claim C2, as amended. In each of the four branches that parse JSON (anthropic, mistral,
  cohere, meta), a malformed event ends the stream: the deltas of the events before it are
  emitted in order, the parse error is raised at that event, and no delta of a later event
  is emitted.
\<close>

theorem malformed_event_ends_stream:
  assumes "p \<in> set stream_tokens"
    and "stream_response L p pre = yields ds StopIteration"
    and "event_json L p bad = Inl e"
  shows "stream_response L p (pre @ bad # post) = yields ds (Raise e) \<and>
         emitted (stream_response L p (pre @ bad # post)) = ds"
proof -
  have "stream_response L p (bad # post) = Raise e"
    using assms(1,3) by (rule stream_response_malformed)
  then have "stream_response L p (pre @ bad # post) = yields ds (Raise e)"
    using stream_response_append [OF assms(2)] by simp
  then show ?thesis by (simp add: emitted_yields)
qed

theorem malformed_event_ends_stream_witness:
  \<open>''anthropic'' \<in> set stream_tokens \<and>
   event_json ex_libs ''anthropic'' ''oops'' = Inl JSONDecodeError \<and>
   emitted (stream_response ex_libs ''anthropic''
     ([''{"completion": "a"}''] @ ''oops'' # [''{"completion": "b"}''])) = [JStr ''a'']\<close>
proof -
  have a: "''anthropic'' \<in> set stream_tokens" by (simp add: stream_tokens_def)
  have b: \<open>stream_response ex_libs ''anthropic'' [''{"completion": "a"}''] =
      yields [JStr ''a''] StopIteration\<close>
    by (simp add: stream_response_def anthropic_delta_def bind_err_def ex_libs_def ex_loads_def)
  have c: "event_json ex_libs ''anthropic'' ''oops'' = Inl JSONDecodeError"
    by (simp add: event_json_def ex_libs_def ex_loads_def)
  show ?thesis
    using a c malformed_event_ends_stream [OF a b c, of \<open>[''{"completion": "b"}'']\<close>]
    by simp
qed

text \<open>
  Claim C6 says that for a model identifier of no known family the streaming decoder emits
  nothing. The last branch of the decoder is taken for such an identifier, and it yields
  every chunk: the identifier "foo.bar-v1" contains no marker, and the events "hi", "there"
  are yielded as they are.
\<close>

theorem unknown_family_stream_counterexample:
  "classify ''foo.bar-v1'' = Unknown \<and>
   stream_response ex_libs (stream_provider ''foo.bar-v1'') [''hi'', ''there''] =
     Yield (JStr ''hi'') (Yield (JStr ''there'') StopIteration)"
  by (simp add: classify_def markers_def stream_provider_def stream_response_def
      default_delta_def bind_err_def ex_libs_def ex_decode_def)

lemma emitted_for_each_default:
  "emitted (for_each (default_delta L) events) =
     map (\<lambda>b. JStr (projr (utf8_decode L b)))
       (takeWhile (\<lambda>b. \<not> isl (utf8_decode L b)) events)"
proof (induction events)
  case Nil
  then show ?case by simp
next
  case (Cons b events)
  then show ?case
    by (cases "utf8_decode L b") (simp_all add: default_delta_def bind_err_def)
qed

lemma for_each_default_raise:
  assumes "map (utf8_decode L) pre = map Inr texts" and "utf8_decode L bad = Inl e"
  shows "for_each (default_delta L) (pre @ bad # post) = yields (map JStr texts) (Raise e)"
proof -
  have "for_each (default_delta L) (bad # post) = Raise e"
    using assms(2) by (simp add: default_delta_def bind_err_def)
  then show ?thesis
    using for_each_append [OF for_each_default [OF assms(1)], of "bad # post"] by simp
qed

text \<open>
  Claim C6, as amended. For every model identifier that contains no family marker, the
  streaming decoder takes its default branch. For every sequence of events it yields, in the
  order of the events, one delta per chunk, the chunk decoded as UTF-8 and passed through as
  it is, for the chunks before the first one that is not UTF-8; at that chunk the decoding
  error is raised and the stream ends. When every chunk is UTF-8 there is exactly one delta
  per event, and the stream is then empty only when there is no event.
\<close>

theorem unknown_family_streams_verbatim:
  assumes "\<forall>(m, f) \<in> set markers. \<not> py_in m model"
  shows "emitted (stream_response L (stream_provider model) events) =
           map (\<lambda>b. JStr (projr (utf8_decode L b)))
             (takeWhile (\<lambda>b. \<not> isl (utf8_decode L b)) events) \<and>
         (map (utf8_decode L) events = map Inr texts \<longrightarrow>
            stream_response L (stream_provider model) events =
              yields (map JStr texts) StopIteration \<and>
            emitted (stream_response L (stream_provider model) events) = map JStr texts) \<and>
         (map (utf8_decode L) pre = map Inr texts \<and> utf8_decode L bad = Inl e \<longrightarrow>
            stream_response L (stream_provider model) (pre @ bad # post) =
              yields (map JStr texts) (Raise e) \<and>
            emitted (stream_response L (stream_provider model) (pre @ bad # post)) =
              map JStr texts)"
proof -
  have "stream_provider model \<notin> set stream_tokens"
    using assms by (rule no_marker_no_token)
  then have d: "\<And>evs. stream_response L (stream_provider model) evs =
      for_each (default_delta L) evs"
    by (rule stream_response_default)
  show ?thesis
  proof (intro conjI impI)
    show "emitted (stream_response L (stream_provider model) events) =
           map (\<lambda>b. JStr (projr (utf8_decode L b)))
             (takeWhile (\<lambda>b. \<not> isl (utf8_decode L b)) events)"
      by (simp add: d emitted_for_each_default)
  next
    assume a: "map (utf8_decode L) events = map Inr texts"
    show s: "stream_response L (stream_provider model) events =
        yields (map JStr texts) StopIteration"
      using for_each_default [OF a] by (simp add: d)
    show "emitted (stream_response L (stream_provider model) events) = map JStr texts"
      by (simp add: s emitted_yields)
  next
    assume a: "map (utf8_decode L) pre = map Inr texts \<and> utf8_decode L bad = Inl e"
    show s: "stream_response L (stream_provider model) (pre @ bad # post) =
        yields (map JStr texts) (Raise e)"
      using for_each_default_raise [of L pre texts bad e post] a by (simp add: d)
    show "emitted (stream_response L (stream_provider model) (pre @ bad # post)) =
        map JStr texts"
      by (simp add: s emitted_yields)
  qed
qed

theorem unknown_family_streams_verbatim_witness:
  "emitted (stream_response ex_libs (stream_provider ''foo.bar-v1'') [''hi'', ''there'']) =
     map JStr [''hi'', ''there''] \<and>
   stream_response ex_libs (stream_provider ''foo.bar-v1'')
     ([''hi''] @ [CHR 0xFF] # [''there'']) = Yield (JStr ''hi'') (Raise UnicodeDecodeError) \<and>
   emitted (stream_response ex_libs (stream_provider ''foo.bar-v1'') [[CHR 0xFF]]) = []"
proof -
  have a: "\<forall>(m, f) \<in> set markers. \<not> py_in m ''foo.bar-v1''"
    by (simp add: markers_def)
  have b: "map (utf8_decode ex_libs) [''hi'', ''there''] = map Inr [''hi'', ''there'']"
    by (simp add: ex_libs_def ex_decode_def)
  have c: "map (utf8_decode ex_libs) [''hi''] = map Inr [''hi''] \<and>
      utf8_decode ex_libs [CHR 0xFF] = Inl UnicodeDecodeError"
    by (simp add: ex_libs_def ex_decode_def)
  have n: "\<not> isl (utf8_decode ex_libs ''hi'')" "isl (utf8_decode ex_libs [CHR 0xFF])"
    by (simp_all add: ex_libs_def ex_decode_def)
  note t = unknown_family_streams_verbatim [OF a]
  note t1 = t [of ex_libs "[''hi'', ''there'']" "[''hi'', ''there'']", THEN conjunct2,
      THEN conjunct1, THEN mp, OF b]
  note t2 = t [of ex_libs _ "[''hi'']" "[''hi'']" "[CHR 0xFF]" UnicodeDecodeError "[''there'']",
      THEN conjunct2, THEN conjunct2, THEN mp, OF c]
  note t3 = t [of ex_libs "[[CHR 0xFF]]", THEN conjunct1]
  show ?thesis using t1 t2 t3 n by simp
qed

text \<open>
  Claim C10 says that whenever the family marker of a model identifier is not exactly its
  first dot-separated segment, streaming uses the default branch. The identifier
  "mistral.anthropic-mix" is of the Anthropic family for the whole-response decoder (the
  chain tests "anthropic" before "mistral"), its marker "anthropic" is not the first segment,
  and yet streaming takes the Mistral branch, not the default one: the first segment is the
  token "mistral".
\<close>

theorem stream_branch_by_token_counterexample:
  \<open>classify ''mistral.anthropic-mix'' = Anthropic \<and>
   stream_provider ''mistral.anthropic-mix'' = ''mistral'' \<and>
   stream_response ex_libs (stream_provider ''mistral.anthropic-mix'')
     [''{"outputs": [{"text": "hi"}]}''] = Yield (JStr ''hi'') StopIteration \<and>
   for_each (default_delta ex_libs) [''{"outputs": [{"text": "hi"}]}''] =
     Yield (JStr ''{"outputs": [{"text": "hi"}]}'') StopIteration\<close>
  by (simp add: classify_def markers_def stream_provider_def stream_response_def
      default_delta_def mistral_delta_def mistral_line_def bind_err_def ex_libs_def
      ex_decode_def ex_loads_def)

lemma single_marker_not_first_segment:
  assumes "(m, f) \<in> set markers" and "py_in m model"
    and "\<forall>(m', f') \<in> set markers. m' \<noteq> m \<longrightarrow> \<not> py_in m' model"
    and "stream_provider model \<noteq> m"
  shows "stream_provider model \<notin> set stream_tokens"
proof
  assume "stream_provider model \<in> set stream_tokens"
  then obtain f' where "(stream_provider model, f') \<in> set markers"
    by (auto simp: stream_tokens_def markers_def)
  then show False using assms(3,4) py_in_stream_provider [of model] by auto
qed

text \<open>
  Claim C10, as amended. The streaming decoder selects its branch by equality with the
  provider token, the segment of the identifier before its first dot. For every identifier
  whose first segment is none of the tokens anthropic, mistral, cohere, meta, streaming uses
  the default branch, which yields each chunk decoded as UTF-8, while the whole-response
  decoder selects the family by substring. This covers every identifier that contains exactly
  one family marker and does not have it as its first segment.
\<close>

theorem stream_branch_by_token:
  "(stream_provider model \<notin> set stream_tokens \<longrightarrow>
      stream_response L (stream_provider model) events = for_each (default_delta L) events \<and>
      (map (utf8_decode L) events = map Inr texts \<longrightarrow>
         stream_response L (stream_provider model) events =
           yields (map JStr texts) StopIteration) \<and>
      extract_output jsondata model = extract_family (classify model) jsondata) \<and>
   ((m, f) \<in> set markers \<and> py_in m model \<and>
      (\<forall>(m', f') \<in> set markers. m' \<noteq> m \<longrightarrow> \<not> py_in m' model) \<and>
      stream_provider model \<noteq> m \<longrightarrow>
      stream_provider model \<notin> set stream_tokens \<and> classify model = f)"
proof (intro conjI impI)
  assume a: "stream_provider model \<notin> set stream_tokens"
  then show d: "stream_response L (stream_provider model) events =
      for_each (default_delta L) events"
    by (rule stream_response_default)
  show "extract_output jsondata model = extract_family (classify model) jsondata"
    by (rule extract_output_classify)
  assume "map (utf8_decode L) events = map Inr texts"
  then show "stream_response L (stream_provider model) events =
      yields (map JStr texts) StopIteration"
    using d for_each_default by simp
next
  assume h: "(m, f) \<in> set markers \<and> py_in m model \<and>
      (\<forall>(m', f') \<in> set markers. m' \<noteq> m \<longrightarrow> \<not> py_in m' model) \<and>
      stream_provider model \<noteq> m"
  then show "stream_provider model \<notin> set stream_tokens"
    using single_marker_not_first_segment by blast
  show "classify model = f" using h classify_only by blast
qed

theorem stream_branch_by_token_witness:
  \<open>stream_provider ''us.anthropic.claude-3'' = ''us'' \<and>
   stream_response ex_libs (stream_provider ''us.anthropic.claude-3'')
     [''{"completion": "a"}''] = Yield (JStr ''{"completion": "a"}'') StopIteration \<and>
   extract_output (JObj [(''content'', JArr [JObj [(''text'', JStr ''ok'')]])])
     ''us.anthropic.claude-3'' = Inr (JStr ''ok'') \<and>
   classify ''us.anthropic.claude-3'' = Anthropic\<close>
proof -
  have h: "(''anthropic'', Anthropic) \<in> set markers \<and> py_in ''anthropic'' ''us.anthropic.claude-3'' \<and>
      (\<forall>(m', f') \<in> set markers. m' \<noteq> ''anthropic'' \<longrightarrow> \<not> py_in m' ''us.anthropic.claude-3'') \<and>
      stream_provider ''us.anthropic.claude-3'' \<noteq> ''anthropic''"
    by (simp add: markers_def stream_provider_def)
  note t2 = stream_branch_by_token [of "''us.anthropic.claude-3''" ex_libs
      \<open>[''{"completion": "a"}'']\<close> \<open>[''{"completion": "a"}'']\<close>
      "JObj [(''content'', JArr [JObj [(''text'', JStr ''ok'')]])]" "''anthropic''" Anthropic,
      THEN conjunct2, THEN mp, OF h]
  have a: "stream_provider ''us.anthropic.claude-3'' \<notin> set stream_tokens"
    using t2 by simp
  have b: \<open>map (utf8_decode ex_libs) [''{"completion": "a"}''] = map Inr [''{"completion": "a"}'']\<close>
    by (simp add: ex_libs_def ex_decode_def)
  note t1 = stream_branch_by_token [of "''us.anthropic.claude-3''" ex_libs
      \<open>[''{"completion": "a"}'']\<close> \<open>[''{"completion": "a"}'']\<close>
      "JObj [(''content'', JArr [JObj [(''text'', JStr ''ok'')]])]" "''anthropic''" Anthropic,
      THEN conjunct1, THEN mp, OF a]
  have c: "stream_provider ''us.anthropic.claude-3'' = ''us''"
    by (simp add: stream_provider_def)
  show ?thesis
    using t1 t2 b c by (simp add: extract_anthropic_def bind_err_def default_delta_def)
qed

subsection \<open>Whole-response extraction\<close>

lemma getitem_Inr_iff:
  "getitem j k = Inr v \<longleftrightarrow> (\<exists>d. j = JObj d \<and> map_of d k = Some v)"
  by (cases j) (auto split: option.splits)

lemma getitem0_Inr_iff:
  "getitem0 j = Inr x \<longleftrightarrow>
     (\<exists>xs. j = JArr (x # xs)) \<or> (\<exists>c s. j = JStr (c # s) \<and> x = JStr [c])"
  by (cases j) (auto split: list.splits)

lemma dict_get_Inr_iff:
  "dict_get j k dflt = Inr v \<longleftrightarrow>
     (\<exists>d. j = JObj d \<and> v = (case map_of d k of None \<Rightarrow> dflt | Some x \<Rightarrow> x))"
  by (cases j) auto

lemma resolve_Key_iff:
  "resolve j (Key k # p) = Some v \<longleftrightarrow>
     (\<exists>d x. j = JObj d \<and> map_of d k = Some x \<and> resolve x p = Some v)"
  by (cases j) (auto split: option.splits)

lemma resolve_Index0_iff:
  "resolve j (Index0 # p) = Some v \<longleftrightarrow> (\<exists>x xs. j = JArr (x # xs) \<and> resolve x p = Some v)"
proof (cases j)
  case (JArr xs)
  then show ?thesis by (cases xs) auto
qed auto

lemma bind_err_Inr_iff:
  "bind_err m f = Inr v \<longleftrightarrow> (\<exists>x. m = Inr x \<and> f x = Inr v)"
  by (cases m) (auto simp: bind_err_def)

lemma list_path_iff:
  "bind_err (getitem j k1) (\<lambda>r. bind_err (getitem0 r) (\<lambda>x. getitem x k2)) = Inr v \<longleftrightarrow>
     resolve j [Key k1, Index0, Key k2] = Some v"
  by (auto simp: bind_err_Inr_iff getitem_Inr_iff getitem0_Inr_iff resolve_Key_iff
      resolve_Index0_iff)

lemma extract_family_path_iff:
  assumes "f \<noteq> Unknown" and "f \<noteq> AI21"
  shows "extract_family f j = Inr v \<longleftrightarrow> resolve j (family_path f) = Some v"
proof (cases f)
  case Amazon
  then show ?thesis by (simp add: extract_amazon_def list_path_iff)
next
  case Anthropic
  then show ?thesis by (simp add: extract_anthropic_def list_path_iff)
next
  case Cohere
  then show ?thesis by (simp add: extract_cohere_def list_path_iff)
next
  case Meta
  then show ?thesis
    by (simp add: extract_meta_def getitem_Inr_iff resolve_Key_iff)
next
  case Mistral
  then show ?thesis by (simp add: extract_mistral_def list_path_iff)
qed (use assms in simp_all)

lemma extract_ai21_Inr_iff:
  "extract_ai21 j = Inr v \<longleftrightarrow>
     (\<exists>d. resolve j [Key ''completions'', Index0, Key ''data''] = Some (JObj d) \<and>
          v = (case map_of d ''text'' of None \<Rightarrow> JNull | Some x \<Rightarrow> x))"
proof
  assume "extract_ai21 j = Inr v"
  then obtain r x dd where r: "dict_get j ''completions'' JNull = Inr r"
    and x: "getitem0 r = Inr x" and dd: "dict_get x ''data'' JNull = Inr dd"
    and v: "dict_get dd ''text'' JNull = Inr v"
    by (auto simp: extract_ai21_def bind_err_Inr_iff)
  from v obtain d where d: "dd = JObj d" "v = (case map_of d ''text'' of None \<Rightarrow> JNull | Some x \<Rightarrow> x)"
    by (auto simp: dict_get_Inr_iff)
  from dd d obtain dx where dx: "x = JObj dx" "map_of dx ''data'' = Some (JObj d)"
    by (auto simp: dict_get_Inr_iff split: option.splits)
  from x dx obtain xs where xs: "r = JArr (JObj dx # xs)"
    by (auto simp: getitem0_Inr_iff)
  from r xs obtain dj where dj: "j = JObj dj" "map_of dj ''completions'' = Some (JArr (JObj dx # xs))"
    by (auto simp: dict_get_Inr_iff split: option.splits)
  have "resolve j [Key ''completions'', Index0, Key ''data''] = Some (JObj d)"
    using dj dx by simp
  with d show "\<exists>d. resolve j [Key ''completions'', Index0, Key ''data''] = Some (JObj d) \<and>
          v = (case map_of d ''text'' of None \<Rightarrow> JNull | Some x \<Rightarrow> x)" by blast
next
  assume "\<exists>d. resolve j [Key ''completions'', Index0, Key ''data''] = Some (JObj d) \<and>
          v = (case map_of d ''text'' of None \<Rightarrow> JNull | Some x \<Rightarrow> x)"
  then obtain d where a: "resolve j [Key ''completions'', Index0, Key ''data''] = Some (JObj d)"
    and v: "v = (case map_of d ''text'' of None \<Rightarrow> JNull | Some x \<Rightarrow> x)" by blast
  from a obtain dj x xs dx where "j = JObj dj" "map_of dj ''completions'' = Some (JArr (x # xs))"
    "x = JObj dx" "map_of dx ''data'' = Some (JObj d)"
    by (auto simp: resolve_Key_iff resolve_Index0_iff)
  then show "extract_ai21 j = Inr v"
    using v by (simp add: extract_ai21_def bind_err_def)
qed

lemma extract_ai21_path:
  assumes "resolve j (family_path AI21) = Some v"
  shows "extract_ai21 j = Inr v"
proof -
  from assms obtain d where "resolve j [Key ''completions'', Index0, Key ''data''] = Some (JObj d)"
    and "map_of d ''text'' = Some v"
    by (auto simp: resolve_Key_iff resolve_Index0_iff)
  then show ?thesis by (auto simp: extract_ai21_Inr_iff)
qed

lemma not_Inr_isl: "(\<forall>v. r \<noteq> Inr v) \<Longrightarrow> isl r"
  by (cases r) auto

text \<open>
  Claim C5 says that a missing or malformed field at the expected path always raises. The
  extractor returns whatever value it finds at the path and checks nothing: for Meta a
  \<^verbatim>\<open>generation\<close> field holding the number 5 is returned as it is, and for AI21, whose
  branch reads with \<^verbatim>\<open>.get\<close>, a \<^verbatim>\<open>data\<close> dictionary without \<^verbatim>\<open>text\<close> yields \<^verbatim>\<open>None\<close>.
\<close>

theorem extract_missing_field_counterexample:
  "extract_output (JObj [(''generation'', JInt 5)]) ''meta.llama3-8b-instruct-v1:0'' =
     Inr (JInt 5) \<and>
   extract_output (JObj [(''completions'', JArr [JObj [(''data'', JObj [])]])])
     ''ai21.j2-mid-v1'' = Inr JNull"
  by (simp add: extract_output_def extract_meta_def extract_ai21_def bind_err_def)

text \<open>
  Claim C5, as amended. For every known family, when the response document contains the
  family's field path the extractor returns the value at that path unchanged (the string,
  when it is one). For every family but AI21, when the path is absent from the document the
  extractor raises instead of returning a value; for AI21 it raises when the path up to
  \<^verbatim>\<open>data\<close> is absent. For Anthropic, the document \<^verbatim>\<open>{"content":[{"text":"ok"}]}\<close> gives "ok"
  and \<^verbatim>\<open>{"content":[]}\<close> raises \<^verbatim>\<open>IndexError\<close>.
\<close>

theorem extract_returns_value_at_path:
  "(classify model = f \<and> f \<noteq> Unknown \<and> resolve jsondata (family_path f) = Some v \<longrightarrow>
      extract_output jsondata model = Inr v) \<and>
   (classify model = f \<and> f \<noteq> Unknown \<and> f \<noteq> AI21 \<and>
      resolve jsondata (family_path f) = None \<longrightarrow>
      isl (extract_output jsondata model)) \<and>
   (classify model = AI21 \<and>
      resolve jsondata [Key ''completions'', Index0, Key ''data''] = None \<longrightarrow>
      isl (extract_output jsondata model)) \<and>
   extract_output (JObj [(''content'', JArr [JObj [(''text'', JStr ''ok'')]])])
     ''anthropic.claude-v2'' = Inr (JStr ''ok'') \<and>
   extract_output (JObj [(''content'', JArr [])]) ''anthropic.claude-v2'' = Inl IndexError"
proof (intro conjI impI)
  assume h: "classify model = f \<and> f \<noteq> Unknown \<and> resolve jsondata (family_path f) = Some v"
  show "extract_output jsondata model = Inr v"
  proof (cases "f = AI21")
    case True
    then show ?thesis using h extract_ai21_path by (simp add: extract_output_classify)
  next
    case False
    then show ?thesis
      using h extract_family_path_iff [of f jsondata v] by (simp add: extract_output_classify)
  qed
next
  assume h: "classify model = f \<and> f \<noteq> Unknown \<and> f \<noteq> AI21 \<and>
      resolve jsondata (family_path f) = None"
  then have "\<forall>v. extract_family f jsondata \<noteq> Inr v"
    using extract_family_path_iff [of f jsondata] by simp
  then have "isl (extract_family f jsondata)" by (rule not_Inr_isl)
  then show "isl (extract_output jsondata model)"
    using h by (simp add: extract_output_classify)
next
  assume h: "classify model = AI21 \<and>
      resolve jsondata [Key ''completions'', Index0, Key ''data''] = None"
  then have "\<forall>v. extract_ai21 jsondata \<noteq> Inr v"
    by (simp add: extract_ai21_Inr_iff)
  then have "isl (extract_ai21 jsondata)" by (rule not_Inr_isl)
  then show "isl (extract_output jsondata model)"
    using h by (simp add: extract_output_classify)
next
  show "extract_output (JObj [(''content'', JArr [JObj [(''text'', JStr ''ok'')]])])
     ''anthropic.claude-v2'' = Inr (JStr ''ok'')"
    by (simp add: extract_output_def extract_anthropic_def bind_err_def)
  show "extract_output (JObj [(''content'', JArr [])]) ''anthropic.claude-v2'' = Inl IndexError"
    by (simp add: extract_output_def extract_anthropic_def bind_err_def)
qed

theorem extract_returns_value_at_path_witness:
  "classify ''cohere.command-text-v14'' = Cohere \<and>
   resolve (JObj [(''generations'', JArr [JObj [(''text'', JStr ''hello'')]])])
     (family_path Cohere) = Some (JStr ''hello'') \<and>
   extract_output (JObj [(''generations'', JArr [JObj [(''text'', JStr ''hello'')]])])
     ''cohere.command-text-v14'' = Inr (JStr ''hello'') \<and>
   resolve (JObj [(''generations'', JArr [])]) (family_path Cohere) = None \<and>
   isl (extract_output (JObj [(''generations'', JArr [])]) ''cohere.command-text-v14'') \<and>
   classify ''ai21.j2-mid-v1'' = AI21 \<and>
   resolve (JObj [(''completions'', JArr [])]) [Key ''completions'', Index0, Key ''data''] = None \<and>
   isl (extract_output (JObj [(''completions'', JArr [])]) ''ai21.j2-mid-v1'')"
proof -
  have c: "classify ''cohere.command-text-v14'' = Cohere"
    by (simp add: classify_def markers_def)
  have a: "classify ''ai21.j2-mid-v1'' = AI21"
    by (simp add: classify_def markers_def)
  have h1: "classify ''cohere.command-text-v14'' = Cohere \<and> Cohere \<noteq> Unknown \<and>
      resolve (JObj [(''generations'', JArr [JObj [(''text'', JStr ''hello'')]])])
        (family_path Cohere) = Some (JStr ''hello'')"
    using c by simp
  have h2: "classify ''cohere.command-text-v14'' = Cohere \<and> Cohere \<noteq> Unknown \<and> Cohere \<noteq> AI21 \<and>
      resolve (JObj [(''generations'', JArr [])]) (family_path Cohere) = None"
    using c by simp
  have h3: "classify ''ai21.j2-mid-v1'' = AI21 \<and>
      resolve (JObj [(''completions'', JArr [])]) [Key ''completions'', Index0, Key ''data''] = None"
    using a by simp
  note t1 = extract_returns_value_at_path [THEN conjunct1, THEN mp, OF h1]
  note t2 = extract_returns_value_at_path [THEN conjunct2, THEN conjunct1, THEN mp, OF h2]
  note t3 = extract_returns_value_at_path [THEN conjunct2, THEN conjunct2, THEN conjunct1,
      THEN mp, OF h3]
  show ?thesis using h1 h2 h3 t1 t2 t3 by simp
qed

subsection \<open>The Anthropic content list\<close>

lemma b64encode_Man: "b64encode ''Man'' = ''TWFu''"
  by (simp add: b64encode_def b64_char_def b64_alphabet_def)

text \<open>
  Claim C1 says that the image block goes before the text block inside the last user turn's
  own content list and that each turn's content list holds that turn's blocks only. The
  branch builds one list for all user turns: with the turns user "a", assistant "x",
  user "b" and an image that downloads, both user messages of the payload carry the same
  list, the image block followed by the text blocks of "a" and of "b".
\<close>

theorem anthropic_content_list_is_shared:
  "request_object ex_libs ''anthropic.claude-3-sonnet-20240229-v1:0''
     [turn ''user'' ''a'', turn ''assistant'' ''x'', turn ''user'' ''b'']
     [(''image_url'', JStr ''http://example.com/cat.jpg'')] =
     Inr (Some (JObj
       [(''anthropic_version'', JStr ''bedrock-2023-05-31''),
        (''max_tokens'', JInt 2048),
        (''messages'',
           JArr [JObj [(''role'', JStr ''user''),
                       (''content'', JArr [image_block ''TWFu'', text_block (JStr ''a''),
                                          text_block (JStr ''b'')])],
                 JObj [(''role'', JStr ''assistant''), (''content'', JStr ''x'')],
                 JObj [(''role'', JStr ''user''),
                       (''content'', JArr [image_block ''TWFu'', text_block (JStr ''a''),
                                          text_block (JStr ''b'')])]]),
        (''temperature'', JFloat (1 / 2))]))"
  by (simp add: request_object_def Let_def some_obj_def format_anthropic_def image_wanted_def
      fetch_image_def list_append_def body_get_def turn_def ex_libs_def ex_get_def
      b64encode_Man)

end
